theory Spec2Isabelle
  imports Complex_Main "HOL-Library.AList"
begin

section \<open>Ledger data as the report tool reads it\<close>

text \<open>
  The report tool (the script that prints fee items and totals for one account and one
  month) reads balance transactions of the upstream ledger. Only the fields the tool
  touches are modelled. Amounts are integers in minor currency units; JavaScript numbers
  are exact on integers up to \<open>2^53\<close>, and the model takes all amounts and running totals
  to stay in that range, so \<open>int\<close> arithmetic is the tool's arithmetic. Nested values
  that the tool copies without looking inside (metadata, payment method details, billing
  details) are opaque strings. A \<open>Date\<close> built by \<open>new Date(s * 1000)\<close> is modelled by
  its epoch milliseconds \<open>s * 1000\<close>. The expanded \<open>source\<close> of a transaction is an object
  or \<open>null\<close>.
\<close>

type_synonym json = string

record fee_detail =
  fd_type :: string
  fd_amount :: int
  fd_currency :: string
  fd_description :: string

record source_object =
  src_id :: string
  src_available_on :: int
  src_metadata :: json
  src_payment_method_details :: json
  src_billing_details :: json

record raw_transaction =
  tx_id :: string
  tx_type :: string
  tx_status :: string
  tx_amount :: int
  tx_net :: int
  tx_fee :: int
  tx_currency :: string
  tx_created :: int
  tx_available_on :: int
  tx_source :: "source_object option"
  tx_fee_details :: "fee_detail list"

section \<open>Classified records and accumulators\<close>

record payout =
  p_transaction_id :: string
  p_id :: string
  p_amount :: int
  p_fee :: int
  p_currency :: string
  p_status :: string
  p_created :: int
  p_available_on :: int
  p_arrival_date :: int

record charge =
  c_transaction_id :: string
  c_id :: string
  c_amount :: int
  c_fee :: int
  c_currency :: string
  c_created :: int
  c_available_on :: int
  c_metadata :: json
  c_payment_method :: json
  c_billing_details :: json

record fee_line_item =
  li_transaction_id :: string
  li_charge_id :: string
  li_amount :: int
  li_currency :: string
  li_description :: string
  li_created :: int
  li_available_on :: int

text \<open>The object literal \<open>taxesAndFees\<close>: exactly three own properties, each an array.\<close>

record fee_buckets =
  tax :: "fee_line_item list"
  stripe_fee :: "fee_line_item list"
  application_fee :: "fee_line_item list"

record totals_rec =
  pending_transactions :: int
  payouts_gross :: int
  payouts_net :: int
  payouts_fees :: int
  stripe_fees :: int
  charge_gross :: int
  charge_net :: int
  charge_fees :: int
  charge_stripe_fees :: int
  charge_application_fees :: int
  charge_tax_fees :: int

text \<open>
  What the loop writes to the terminal: \<open>console.error(transaction)\<close> for a status that
  is neither pending nor available, \<open>spinner.warn\<close> with type and id for an unknown type.
\<close>

datatype console_line =
  ConsoleError raw_transaction
  | SpinnerWarn string string

text \<open>
  The variables of \<open>main\<close> that the loop updates, and the terminal. The accumulators are
  local to \<open>main\<close>; the terminal belongs to the process.
\<close>

record state =
  taxesAndFees :: fee_buckets
  payouts :: "payout list"
  transactions :: "raw_transaction list"
  charges :: "charge list"
  totals :: totals_rec
  console :: "console_line list"

text \<open>
  A thrown JavaScript error. A \<open>TypeError\<close> is what a property read on \<open>undefined\<close> or
  \<open>null\<close>, or a call of a non-function, raises; its message is worded by the engine.
\<close>

datatype js_error =
  TypeError string
  | Error string

fun message :: "js_error \<Rightarrow> string" where
  "message (TypeError m) = m"
| "message (Error m) = m"

section \<open>The classification loop\<close>

definition knownTransactionTypes :: "string list" where
  "knownTransactionTypes = [''charge'', ''payout'', ''stripe_fee'']"

text \<open>
  \<open>taxesAndFees[fee.type]\<close>: the property read finds an array only for the three own
  keys. For any other key the read gives \<open>undefined\<close> (or an inherited member of
  \<open>Object.prototype\<close>, none of which has a \<open>push\<close>), and calling \<open>.push\<close> on it raises
  a \<open>TypeError\<close>: the lookup is \<open>None\<close> then.
\<close>

definition bucket :: "string \<Rightarrow> fee_buckets \<Rightarrow> fee_line_item list option" where
  "bucket k b =
     (if k = ''tax'' then Some (tax b)
      else if k = ''stripe_fee'' then Some (stripe_fee b)
      else if k = ''application_fee'' then Some (application_fee b)
      else None)"

text \<open>The array found under the key, after \<open>push\<close> has appended to it in place.\<close>

definition bucket_push :: "string \<Rightarrow> fee_line_item \<Rightarrow> fee_buckets \<Rightarrow> fee_buckets" where
  "bucket_push k item b =
     (if k = ''tax'' then b\<lparr>tax := tax b @ [item]\<rparr>
      else if k = ''stripe_fee'' then b\<lparr>stripe_fee := stripe_fee b @ [item]\<rparr>
      else if k = ''application_fee'' then b\<lparr>application_fee := application_fee b @ [item]\<rparr>
      else b)"

text \<open>The three-way branch on \<open>fee.type\<close> that picks the charge-level fee total.\<close>

definition add_fee_total :: "fee_detail \<Rightarrow> totals_rec \<Rightarrow> totals_rec" where
  "add_fee_total fee tot =
     (if fd_type fee = ''stripe_fee''
        then tot\<lparr>charge_stripe_fees := charge_stripe_fees tot + fd_amount fee\<rparr>
      else if fd_type fee = ''application_fee''
        then tot\<lparr>charge_application_fees := charge_application_fees tot + fd_amount fee\<rparr>
      else tot\<lparr>charge_tax_fees := charge_tax_fees tot + fd_amount fee\<rparr>)"

definition make_line_item :: "raw_transaction \<Rightarrow> source_object \<Rightarrow> fee_detail \<Rightarrow> fee_line_item" where
  "make_line_item t src fee =
     \<lparr>li_transaction_id = tx_id t,
      li_charge_id = src_id src,
      li_amount = fd_amount fee,
      li_currency = fd_currency fee,
      li_description = fd_description fee,
      li_created = tx_created t * 1000,
      li_available_on = tx_available_on t * 1000\<rparr>"

text \<open>
  The callback of \<open>transaction.fee_details.forEach\<close>. The total is updated first; then
  the bucket is looked up by the raw tag, and the item is built, which reads
  \<open>transaction.source.id\<close>. Either read can raise, and the raise leaves \<open>main\<close>.
\<close>

definition fee_callback :: "raw_transaction \<Rightarrow> fee_detail \<Rightarrow> state \<Rightarrow> js_error + state" where
  "fee_callback t fee st =
     (let st1 = st\<lparr>totals := add_fee_total fee (totals st)\<rparr> in
      case bucket (fd_type fee) (taxesAndFees st1) of
        None \<Rightarrow> Inl (TypeError ''Cannot read properties of undefined (reading 'push')'')
      | Some _ \<Rightarrow>
          (case tx_source t of
             None \<Rightarrow> Inl (TypeError ''Cannot read properties of null (reading 'id')'')
           | Some src \<Rightarrow>
               Inr (st1\<lparr>taxesAndFees :=
                          bucket_push (fd_type fee) (make_line_item t src fee) (taxesAndFees st1)\<rparr>)))"

fun fee_details_forEach :: "raw_transaction \<Rightarrow> fee_detail list \<Rightarrow> state \<Rightarrow> js_error + state" where
  "fee_details_forEach t [] st = Inr st"
| "fee_details_forEach t (fee # fees) st =
     (case fee_callback t fee st of
        Inl e \<Rightarrow> Inl e
      | Inr st' \<Rightarrow> fee_details_forEach t fees st')"

definition on_stripe_fee :: "raw_transaction \<Rightarrow> state \<Rightarrow> state" where
  "on_stripe_fee t st =
     (if tx_type t = ''stripe_fee''
        then st\<lparr>totals := (totals st)\<lparr>stripe_fees := stripe_fees (totals st) + tx_amount t * (- 1)\<rparr>\<rparr>
      else st)"

definition make_payout :: "raw_transaction \<Rightarrow> source_object \<Rightarrow> payout" where
  "make_payout t src =
     \<lparr>p_transaction_id = tx_id t,
      p_id = src_id src,
      p_amount = tx_amount t,
      p_fee = tx_fee t,
      p_currency = tx_currency t,
      p_status = tx_status t,
      p_created = tx_created t * 1000,
      p_available_on = tx_available_on t * 1000,
      p_arrival_date = src_available_on src * 1000\<rparr>"

definition on_payout :: "raw_transaction \<Rightarrow> state \<Rightarrow> js_error + state" where
  "on_payout t st =
     (if tx_type t = ''payout'' then
        (let tot = totals st;
             st1 = st\<lparr>totals := tot
                     \<lparr>payouts_gross := payouts_gross tot + tx_amount t * (- 1),
                      payouts_net := payouts_net tot + tx_net t * (- 1),
                      payouts_fees := payouts_fees tot + tx_fee t\<rparr>\<rparr>
         in case tx_source t of
              None \<Rightarrow> Inl (TypeError ''Cannot read properties of null (reading 'id')'')
            | Some src \<Rightarrow> Inr (st1\<lparr>payouts := payouts st1 @ [make_payout t src]\<rparr>))
      else Inr st)"

definition make_charge :: "raw_transaction \<Rightarrow> source_object \<Rightarrow> charge" where
  "make_charge t src =
     \<lparr>c_transaction_id = tx_id t,
      c_id = src_id src,
      c_amount = tx_amount t,
      c_fee = tx_fee t,
      c_currency = tx_currency t,
      c_created = tx_created t * 1000,
      c_available_on = tx_available_on t * 1000,
      c_metadata = src_metadata src,
      c_payment_method = src_payment_method_details src,
      c_billing_details = src_billing_details src\<rparr>"

definition on_charge :: "raw_transaction \<Rightarrow> state \<Rightarrow> js_error + state" where
  "on_charge t st =
     (if tx_type t = ''charge'' then
        (case fee_details_forEach t (tx_fee_details t) st of
           Inl e \<Rightarrow> Inl e
         | Inr st1 \<Rightarrow>
             (case tx_source t of
                None \<Rightarrow> Inl (TypeError ''Cannot read properties of null (reading 'id')'')
              | Some src \<Rightarrow>
                  (let st2 = st1\<lparr>charges := charges st1 @ [make_charge t src]\<rparr>;
                       tot = totals st2
                   in Inr (st2\<lparr>totals := tot
                             \<lparr>charge_fees := charge_fees tot + tx_fee t,
                              charge_gross := charge_gross tot + tx_amount t,
                              charge_net := charge_net tot + tx_net t\<rparr>\<rparr>))))
      else Inr st)"

text \<open>One pass through the body of the \<open>for await\<close> loop.\<close>

definition process_transaction :: "raw_transaction \<Rightarrow> state \<Rightarrow> js_error + state" where
  "process_transaction t st =
     (if tx_status t = ''pending'' then
        Inr (st\<lparr>totals := (totals st)
               \<lparr>pending_transactions := pending_transactions (totals st) + 1\<rparr>\<rparr>)
      else if tx_status t \<noteq> ''available'' then
        Inr (st\<lparr>console := console st @ [ConsoleError t]\<rparr>)
      else if tx_type t \<notin> set knownTransactionTypes then
        Inr (st\<lparr>console := console st @ [SpinnerWarn (tx_type t) (tx_id t)]\<rparr>)
      else
        (case on_payout t (on_stripe_fee t st) of
           Inl e \<Rightarrow> Inl e
         | Inr st2 \<Rightarrow>
             (case on_charge t st2 of
                Inl e \<Rightarrow> Inl e
              | Inr st3 \<Rightarrow> Inr (st3\<lparr>transactions := transactions st3 @ [t]\<rparr>))))"

text \<open>The loop over the transactions the ledger delivers, in the order delivered.\<close>

fun process_all :: "raw_transaction list \<Rightarrow> state \<Rightarrow> js_error + state" where
  "process_all [] st = Inr st"
| "process_all (t # ts) st =
     (case process_transaction t st of
        Inl e \<Rightarrow> Inl e
      | Inr st' \<Rightarrow> process_all ts st')"

definition no_fees :: fee_buckets where
  "no_fees = \<lparr>tax = [], stripe_fee = [], application_fee = []\<rparr>"

definition zero_totals :: totals_rec where
  "zero_totals =
     \<lparr>pending_transactions = 0, payouts_gross = 0, payouts_net = 0, payouts_fees = 0,
      stripe_fees = 0, charge_gross = 0, charge_net = 0, charge_fees = 0,
      charge_stripe_fees = 0, charge_application_fees = 0, charge_tax_fees = 0\<rparr>"

text \<open>
  The classification pass of \<open>main\<close>: the declarations of the five accumulators, then
  the loop. The first argument is the state an earlier run left behind; every accumulator
  is declared afresh, and only the terminal carries over.
\<close>

definition classification_pass :: "state \<Rightarrow> raw_transaction list \<Rightarrow> js_error + state" where
  "classification_pass prev txs =
     process_all txs
       (prev\<lparr>taxesAndFees := no_fees,
             payouts := [],
             transactions := [],
             charges := [],
             totals := zero_totals\<rparr>)"

section \<open>Vocabulary for stating the properties\<close>

text \<open>The accumulators as \<open>main\<close> declares them, on a terminal nothing was written to.\<close>

definition fresh_state :: state where
  "fresh_state =
     \<lparr>taxesAndFees = no_fees, payouts = [], transactions = [], charges = [],
      totals = zero_totals, console = []\<rparr>"

text \<open>The fee-detail tags under which \<open>taxesAndFees\<close> holds an array.\<close>

definition known_fee_tag :: "string \<Rightarrow> bool" where
  "known_fee_tag k = (k = ''tax'' \<or> k = ''stripe_fee'' \<or> k = ''application_fee'')"

text \<open>The amounts, and the line items, of the fee details that carry a given tag.\<close>

definition fee_sum :: "string \<Rightarrow> fee_detail list \<Rightarrow> int" where
  "fee_sum k fees = sum_list (map fd_amount (filter (\<lambda>fee. fd_type fee = k) fees))"

definition line_items ::
  "raw_transaction \<Rightarrow> source_object \<Rightarrow> string \<Rightarrow> fee_detail list \<Rightarrow> fee_line_item list" where
  "line_items t src k fees = map (make_line_item t src) (filter (\<lambda>fee. fd_type fee = k) fees)"

text \<open>A transaction that reaches \<open>transactions.push\<close>: available, and of a known type.\<close>

definition audited :: "raw_transaction \<Rightarrow> bool" where
  "audited t = (tx_status t = ''available'' \<and> tx_type t \<in> set knownTransactionTypes)"

text \<open>
  What a run reports: the totals and the collections, or the error that ended it. The
  terminal is left out.
\<close>

definition report ::
  "state \<Rightarrow> totals_rec \<times> fee_buckets \<times> payout list \<times> charge list \<times> raw_transaction list" where
  "report st = (totals st, taxesAndFees st, payouts st, charges st, transactions st)"

definition outcome ::
  "js_error + state \<Rightarrow>
   js_error + totals_rec \<times> fee_buckets \<times> payout list \<times> charge list \<times> raw_transaction list" where
  "outcome r = map_sum id report r"

definition forget_console :: "state \<Rightarrow> state" where
  "forget_console st = st\<lparr>console := []\<rparr>"

subsection \<open>Sample ledger entries\<close>

definition ex_payout_source :: source_object where
  "ex_payout_source =
     \<lparr>src_id = ''po_1'', src_available_on = 1696377600, src_metadata = ''{}'',
      src_payment_method_details = [], src_billing_details = []\<rparr>"

definition ex_payout_tx :: raw_transaction where
  "ex_payout_tx =
     \<lparr>tx_id = ''txn_payout'', tx_type = ''payout'', tx_status = ''available'',
      tx_amount = - 5000, tx_net = - 4950, tx_fee = 50, tx_currency = ''usd'',
      tx_created = 1696200000, tx_available_on = 1696204800,
      tx_source = Some ex_payout_source, tx_fee_details = []\<rparr>"

definition ex_stripe_fee_tx :: raw_transaction where
  "ex_stripe_fee_tx =
     \<lparr>tx_id = ''txn_fee'', tx_type = ''stripe_fee'', tx_status = ''available'',
      tx_amount = - 250, tx_net = - 250, tx_fee = 0, tx_currency = ''usd'',
      tx_created = 1696300000, tx_available_on = 1696300000,
      tx_source = None, tx_fee_details = []\<rparr>"

definition ex_charge_source :: source_object where
  "ex_charge_source =
     \<lparr>src_id = ''ch_1'', src_available_on = 1696204800, src_metadata = ''{}'',
      src_payment_method_details = ''card'', src_billing_details = ''Ada''\<rparr>"

definition ex_charge_tx :: raw_transaction where
  "ex_charge_tx =
     \<lparr>tx_id = ''txn_charge'', tx_type = ''charge'', tx_status = ''available'',
      tx_amount = 1000, tx_net = 970, tx_fee = 30, tx_currency = ''usd'',
      tx_created = 1696150000, tx_available_on = 1696754800,
      tx_source = Some ex_charge_source,
      tx_fee_details =
        [\<lparr>fd_type = ''stripe_fee'', fd_amount = 30, fd_currency = ''usd'',
          fd_description = ''Stripe processing fees''\<rparr>]\<rparr>"

text \<open>
  A charge with a fee detail of the ledger's fourth fee type,
  \<open>payment_method_passthrough_fee\<close>.
\<close>

definition ex_passthrough_charge :: raw_transaction where
  "ex_passthrough_charge =
     \<lparr>tx_id = ''txn_charge_2'', tx_type = ''charge'', tx_status = ''available'',
      tx_amount = 1000, tx_net = 965, tx_fee = 35, tx_currency = ''usd'',
      tx_created = 1696160000, tx_available_on = 1696764800,
      tx_source = Some ex_charge_source,
      tx_fee_details =
        [\<lparr>fd_type = ''stripe_fee'', fd_amount = 30, fd_currency = ''usd'',
          fd_description = ''Stripe processing fees''\<rparr>,
         \<lparr>fd_type = ''payment_method_passthrough_fee'', fd_amount = 5, fd_currency = ''usd'',
          fd_description = ''Card scheme fee''\<rparr>]\<rparr>"

definition ex_pending_tx :: raw_transaction where
  "ex_pending_tx =
     \<lparr>tx_id = ''txn_pending'', tx_type = ''charge'', tx_status = ''pending'',
      tx_amount = 700, tx_net = 680, tx_fee = 20, tx_currency = ''usd'',
      tx_created = 1696170000, tx_available_on = 1696774800,
      tx_source = Some ex_charge_source, tx_fee_details = []\<rparr>"

definition ex_refund_tx :: raw_transaction where
  "ex_refund_tx =
     \<lparr>tx_id = ''txn_refund'', tx_type = ''refund'', tx_status = ''available'',
      tx_amount = - 400, tx_net = - 400, tx_fee = 0, tx_currency = ''usd'',
      tx_created = 1696180000, tx_available_on = 1696180000,
      tx_source = None, tx_fee_details = []\<rparr>"

definition ex_odd_status_tx :: raw_transaction where
  "ex_odd_status_tx =
     \<lparr>tx_id = ''txn_odd'', tx_type = ''charge'', tx_status = ''failed'',
      tx_amount = 900, tx_net = 870, tx_fee = 30, tx_currency = ''usd'',
      tx_created = 1696190000, tx_available_on = 1696190000,
      tx_source = Some ex_charge_source, tx_fee_details = []\<rparr>"

section \<open>The ledger listing request\<close>

text \<open>
  The selected period carries two \<open>Date\<close> objects; \<open>valueOf\<close> gives their epoch
  milliseconds. The tool divides both by 1000 and passes the quotients as the \<open>gte\<close> and
  \<open>lte\<close> bounds of the \<open>created\<close> filter, with the nested source expanded. The quotients
  are kept exact here, as rationals.
\<close>

record period =
  period_start :: int
  period_end :: int

record created_range =
  gte :: rat
  lte :: rat

record list_params =
  created :: created_range
  expand :: "string list"

definition balanceTransactions_list_params :: "period \<Rightarrow> list_params" where
  "balanceTransactions_list_params p =
     \<lparr>created = \<lparr>gte = of_int (period_start p) / 1000, lte = of_int (period_end p) / 1000\<rparr>,
      expand = [''data.source'']\<rparr>"

text \<open>
  The upstream ledger is not part of the repository. Its listing call filters by the
  comparison each key of the range names: \<open>gte\<close> is a lower bound that is included, \<open>lte\<close>
  an upper bound that is included. The \<open>created\<close> field of a transaction is in epoch
  seconds.
\<close>

definition in_created_range :: "created_range \<Rightarrow> int \<Rightarrow> bool" where
  "in_created_range r c = (gte r \<le> of_int c \<and> of_int c \<le> lte r)"

definition listed :: "list_params \<Rightarrow> raw_transaction list \<Rightarrow> raw_transaction list" where
  "listed params ledger = filter (\<lambda>t. in_created_range (created params) (tx_created t)) ledger"

section \<open>Credentials from the environment\<close>

text \<open>
  \<open>process.env\<close> is a list of names with their values, in the order \<open>Object.keys\<close>
  gives them; the names of an environment are distinct. Names are taken to be ASCII, so
  \<open>toLowerCase\<close> only maps \<open>A\<close> to \<open>Z\<close>. A client is the \<open>Stripe\<close> object built from a
  secret with the fixed API version.
\<close>

type_synonym env = "(string \<times> string) list"

record stripe_client =
  api_key :: string
  apiVersion :: string

definition Stripe :: "string \<Rightarrow> stripe_client" where
  "Stripe s = \<lparr>api_key = s, apiVersion = ''2023-08-16''\<rparr>"

definition startsWith :: "string \<Rightarrow> string \<Rightarrow> bool" where
  "startsWith s p = (take (length p) s = p)"

definition lower_char :: "char \<Rightarrow> char" where
  "lower_char c =
     (case map_of (zip ''ABCDEFGHIJKLMNOPQRSTUVWXYZ'' ''abcdefghijklmnopqrstuvwxyz'') c of
        Some d \<Rightarrow> d
      | None \<Rightarrow> c)"

definition toLowerCase :: "string \<Rightarrow> string" where
  "toLowerCase s = map lower_char s"

text \<open>
  \<open>clients[account] = client\<close> on an object literal. The key \<open>__proto__\<close> is the accessor
  of \<open>Object.prototype\<close>: assigning to it replaces the prototype and creates no own
  property. Any other key becomes (or stays) an own property. Own properties are kept in
  insertion order; JavaScript lists integer-like keys first, and nothing here depends on
  the order.
\<close>

definition set_property :: "string \<Rightarrow> 'v \<Rightarrow> (string \<times> 'v) list \<Rightarrow> (string \<times> 'v) list" where
  "set_property k v obj = (if k = ''__proto__'' then obj else AList.update k v obj)"

text \<open>The callback of \<open>Object.keys(process.env).forEach\<close>.\<close>

definition env_callback ::
  "env \<Rightarrow> string \<Rightarrow> (string \<times> stripe_client) list \<Rightarrow> (string \<times> stripe_client) list" where
  "env_callback env key clients =
     (if startsWith key ''STRIPE_TOKEN_'' then
        (let account = toLowerCase (drop 13 key) in
         case map_of env key of
           None \<Rightarrow> clients
         | Some s \<Rightarrow> if s = [] then clients else set_property account (Stripe s) clients)
      else clients)"

text \<open>
  \<open>getStripeClients\<close> returns the object and \<open>Object.keys\<close> of it; the keys are given as
  a set, \<open>main\<close> sorts them before use.
\<close>

definition getStripeClients :: "env \<Rightarrow> (string \<times> stripe_client) list \<times> string set" where
  "getStripeClients env =
     (let clients = fold (env_callback env) (map fst env) [] in (clients, set (map fst clients)))"

text \<open>
  The entries the contract of the resolver speaks of: for each variable with the prefix
  and a non-empty value, the lowercased rest of its name and the value.
\<close>

definition account_of :: "string \<Rightarrow> string" where
  "account_of key = toLowerCase (drop 13 key)"

definition is_token :: "string \<times> string \<Rightarrow> bool" where
  "is_token kv = (startsWith (fst kv) ''STRIPE_TOKEN_'' \<and> snd kv \<noteq> [])"

definition token_entries :: "env \<Rightarrow> (string \<times> string) list" where
  "token_entries env = map (\<lambda>kv. (account_of (fst kv), snd kv)) (filter is_token env)"

definition ex_env :: env where
  "ex_env =
     [(''PATH'', ''/usr/bin''), (''STRIPE_TOKEN_ACME'', ''sk_test_1''),
      (''STRIPE_TOKEN_EMPTY'', []), (''STRIPE_TOKEN_Shop'', ''op://vault/shop/token'')]"

definition ex_env_collision :: env where
  "ex_env_collision = [(''STRIPE_TOKEN_A'', ''sk_one''), (''STRIPE_TOKEN_a'', ''sk_two'')]"

section \<open>The entry points and the exit status\<close>

text \<open>
  The answers of the prompt layer: the promise of \<open>prompts\<close> either rejects, or resolves
  with the answers given; an answer that was not given is \<open>undefined\<close>. The report tool
  asks for account and period, the extended tool for an action as well.
\<close>

record responses =
  r_account :: "string option"
  r_period :: "period option"
  r_action :: "string option"

text \<open>
  How \<open>main\<close> ends: with a call of \<open>process.exit\<close>, or with its promise resolved or
  rejected.
\<close>

datatype main_result =
  Exited nat
  | Resolved
  | Rejected js_error

text \<open>
  The handlers both tools attach to \<open>main()\<close>: \<open>then\<close> exits with 0; \<open>catch\<close> exits with
  0 when the message of the error starts with the text the prompt layer uses for a forced
  close, and with 1 otherwise.
\<close>

definition settle :: "main_result \<Rightarrow> nat" where
  "settle r =
     (case r of
        Exited n \<Rightarrow> n
      | Resolved \<Rightarrow> 0
      | Rejected error \<Rightarrow>
          (if startsWith (message error) ''User force closed the prompt with'' then 0 else 1))"

text \<open>
  \<open>obj[key]\<close> for a key that may be \<open>undefined\<close>: the property name is then the string
  \<open>undefined\<close>.
\<close>

definition get_property :: "string option \<Rightarrow> (string \<times> 'v) list \<Rightarrow> 'v option" where
  "get_property key obj = map_of obj (case key of None \<Rightarrow> ''undefined'' | Some k \<Rightarrow> k)"

text \<open>
  \<open>main\<close> of the report tool. Taken as parameters: the environment, the answers of the
  prompt layer, \<open>formatPeriod\<close> of the date module (it returns a text or raises),
  the upstream listing (the transactions it delivers and the error, if any, that ends the
  stream after them), and the state left by an earlier run. Reading
  \<open>stripeClient.balanceTransactions\<close> on \<open>undefined\<close> and \<open>responses.period.start\<close> on
  \<open>undefined\<close> raise a \<open>TypeError\<close>.
\<close>

definition report_main ::
  "env \<Rightarrow> js_error + responses \<Rightarrow> (period option \<Rightarrow> js_error + string) \<Rightarrow>
   (stripe_client \<Rightarrow> list_params \<Rightarrow> raw_transaction list \<times> js_error option) \<Rightarrow>
   state \<Rightarrow> main_result" where
  "report_main env answers formatPeriod list_upstream prev =
     (case getStripeClients env of (stripeClients, stripeAccounts) \<Rightarrow>
        if stripeAccounts = {} then Exited 1
        else
          (case answers of
             Inl e \<Rightarrow> Rejected e
           | Inr responses \<Rightarrow>
               (case formatPeriod (r_period responses) of
                  Inl e \<Rightarrow> Rejected e
                | Inr _ \<Rightarrow>
                    (case get_property (r_account responses) stripeClients of
                       None \<Rightarrow>
                         Rejected (TypeError
                           ''Cannot read properties of undefined (reading 'balanceTransactions')'')
                     | Some stripeClient \<Rightarrow>
                         (case r_period responses of
                            None \<Rightarrow>
                              Rejected (TypeError
                                ''Cannot read properties of undefined (reading 'start')'')
                          | Some p \<Rightarrow>
                              (case list_upstream stripeClient (balanceTransactions_list_params p) of
                                 (txs, failure) \<Rightarrow>
                                   (case classification_pass prev txs of
                                      Inl e \<Rightarrow> Rejected e
                                    | Inr st \<Rightarrow>
                                        (case failure of
                                           Some e \<Rightarrow> Rejected e
                                         | None \<Rightarrow> Resolved))))))))"

text \<open>
  What the extended tool calls in other modules and libraries: the secret-store read,
  the construction of the client, the period formatter, and the three actions (each
  resolves, or rejects with an error). Any of them may raise.
\<close>

record externals =
  op_read_parse :: "string \<Rightarrow> js_error + string"
  getStripeClient :: "string \<Rightarrow> js_error + stripe_client"
  format_period :: "period option \<Rightarrow> js_error + string"
  run_action :: "string \<Rightarrow> stripe_client \<Rightarrow> string \<Rightarrow> period \<Rightarrow> js_error option"

text \<open>
  \<open>main\<close> of the extended tool. The token map of \<open>getStripeTokens\<close> is a parameter, given
  as its list of entries. An answer is falsy when it is \<open>undefined\<close> or the empty string
  (a period is an object and falsy only when \<open>undefined\<close>); so is a token.
\<close>

definition tools_main ::
  "(string \<times> string) list \<Rightarrow> js_error + responses \<Rightarrow> externals \<Rightarrow> main_result" where
  "tools_main stripeTokens answers ext =
     (if length stripeTokens < 1 then Exited 1
      else
        (case answers of
           Inl e \<Rightarrow> Rejected e
         | Inr responses \<Rightarrow>
             (case (r_account responses, r_period responses, r_action responses) of
                (Some accountName, Some p, Some action) \<Rightarrow>
                  if accountName = [] \<or> action = [] then Exited 0
                  else
                    (case map_of stripeTokens accountName of
                       None \<Rightarrow> Exited 0
                     | Some token \<Rightarrow>
                         if token = [] then Exited 0
                         else
                           (case (if startsWith token ''op://''
                                  then op_read_parse ext token else Inr token) of
                              Inl e \<Rightarrow> Rejected e
                            | Inr secret \<Rightarrow>
                                (case getStripeClient ext secret of
                                   Inl e \<Rightarrow> Rejected e
                                 | Inr stripe \<Rightarrow>
                                     (case format_period ext (Some p) of
                                        Inl e \<Rightarrow> Rejected e
                                      | Inr _ \<Rightarrow>
                                          if action \<in> {''createAndSaveReceipts'',
                                                        ''downloadInvoices'',
                                                        ''savePayoutReceipts''}
                                          then
                                            (case run_action ext action stripe accountName p of
                                               Some e \<Rightarrow> Rejected e
                                             | None \<Rightarrow> Resolved)
                                          else
                                            Rejected (Error (''Unhandled command: '' @ action))))))
              | _ \<Rightarrow> Exited 0)))"

section \<open>Properties of the classification loop\<close>

lemmas ex_defs =
  ex_payout_source_def ex_payout_tx_def ex_stripe_fee_tx_def ex_charge_source_def
  ex_charge_tx_def ex_passthrough_charge_def ex_pending_tx_def ex_refund_tx_def
  ex_odd_status_tx_def fresh_state_def no_fees_def zero_totals_def

subsection \<open>Single steps\<close>

lemma pending_step:
  assumes "tx_status t = ''pending''"
  shows "process_transaction t st =
           Inr (st\<lparr>totals := (totals st)
                     \<lparr>pending_transactions := pending_transactions (totals st) + 1\<rparr>\<rparr>)"
  using assms by (simp add: process_transaction_def)

lemma skip_status_step:
  assumes "tx_status t \<noteq> ''pending''" and "tx_status t \<noteq> ''available''"
  shows "process_transaction t st = Inr (st\<lparr>console := console st @ [ConsoleError t]\<rparr>)"
  using assms by (simp add: process_transaction_def)

lemma skip_type_step:
  assumes "tx_status t = ''available''"
    and "tx_type t \<notin> {''charge'', ''payout'', ''stripe_fee''}"
  shows "process_transaction t st =
           Inr (st\<lparr>console := console st @ [SpinnerWarn (tx_type t) (tx_id t)]\<rparr>)"
  using assms by (simp add: process_transaction_def knownTransactionTypes_def)

lemma stripe_fee_step:
  assumes "tx_status t = ''available''" and "tx_type t = ''stripe_fee''"
  shows "process_transaction t st =
           Inr (st\<lparr>totals := (totals st)
                     \<lparr>stripe_fees := stripe_fees (totals st) + - tx_amount t\<rparr>,
                   transactions := transactions st @ [t]\<rparr>)"
  using assms
  by (simp add: process_transaction_def knownTransactionTypes_def on_stripe_fee_def
      on_payout_def on_charge_def)

lemma payout_step:
  assumes "tx_status t = ''available''" and "tx_type t = ''payout''"
    and "tx_source t = Some src"
  shows "process_transaction t st =
           Inr (st\<lparr>totals := (totals st)
                     \<lparr>payouts_gross := payouts_gross (totals st) + - tx_amount t,
                      payouts_net := payouts_net (totals st) + - tx_net t,
                      payouts_fees := payouts_fees (totals st) + tx_fee t\<rparr>,
                   payouts := payouts st @ [make_payout t src],
                   transactions := transactions st @ [t]\<rparr>)"
  using assms
  by (simp add: process_transaction_def knownTransactionTypes_def on_stripe_fee_def
      on_payout_def on_charge_def Let_def)

text \<open>
  The worked scenario of one pending transaction and nothing else: the pending counter is
  1, every other total is zero, and no list gains an element.
\<close>

lemma pending_scenario:
  "classification_pass fresh_state [ex_pending_tx] =
     Inr (fresh_state\<lparr>totals := zero_totals\<lparr>pending_transactions := 1\<rparr>\<rparr>)"
  by (simp add: classification_pass_def process_transaction_def ex_defs)

subsection \<open>The fee details of a charge\<close>

lemma fee_callback_unknown:
  "\<not> known_fee_tag (fd_type fee) \<Longrightarrow>
   fee_callback t fee st = Inl (TypeError ''Cannot read properties of undefined (reading 'push')'')"
  by (simp add: fee_callback_def Let_def bucket_def known_fee_tag_def)

lemma fee_callback_known:
  "known_fee_tag (fd_type fee) \<Longrightarrow> tx_source t = Some src \<Longrightarrow>
   fee_callback t fee st =
     Inr (st\<lparr>totals := add_fee_total fee (totals st),
             taxesAndFees :=
               bucket_push (fd_type fee) (make_line_item t src fee) (taxesAndFees st)\<rparr>)"
  by (auto simp add: fee_callback_def Let_def bucket_def known_fee_tag_def)

lemma forEach_unknown:
  "fee \<in> set fees \<Longrightarrow> \<not> known_fee_tag (fd_type fee) \<Longrightarrow>
   isl (fee_details_forEach t fees st)"
proof (induction fees arbitrary: st)
  case Nil
  then show ?case by simp
next
  case (Cons f fs)
  show ?case
  proof (cases "fee_callback t f st")
    case (Inl e)
    then show ?thesis by simp
  next
    case (Inr st')
    with Cons.prems have "f \<noteq> fee" by (auto simp add: fee_callback_unknown)
    with Cons.prems have "fee \<in> set fs" by auto
    with Cons.IH Cons.prems Inr show ?thesis by simp
  qed
qed

lemma forEach_known:
  assumes "tx_source t = Some src" and "\<forall>fee \<in> set fees. known_fee_tag (fd_type fee)"
  shows "fee_details_forEach t fees st =
     Inr (st\<lparr>totals := fold add_fee_total fees (totals st),
             taxesAndFees :=
               fold (\<lambda>fee. bucket_push (fd_type fee) (make_line_item t src fee)) fees
                 (taxesAndFees st)\<rparr>)"
  using assms
proof (induction fees arbitrary: st)
  case Nil
  then show ?case by simp
next
  case (Cons f fs)
  then show ?case by (simp add: fee_callback_known)
qed

lemma fold_add_fee_total:
  "fold add_fee_total fees tot =
     tot\<lparr>charge_stripe_fees := charge_stripe_fees tot + fee_sum ''stripe_fee'' fees,
         charge_application_fees :=
           charge_application_fees tot + fee_sum ''application_fee'' fees,
         charge_tax_fees := charge_tax_fees tot +
           sum_list (map fd_amount
             (filter (\<lambda>fee. fd_type fee \<noteq> ''stripe_fee'' \<and> fd_type fee \<noteq> ''application_fee'')
                fees))\<rparr>"
proof (induction fees arbitrary: tot)
  case Nil
  then show ?case by (simp add: fee_sum_def)
next
  case (Cons f fs)
  then show ?case by (simp add: fee_sum_def add_fee_total_def)
qed

lemma fold_bucket_push:
  "\<forall>fee \<in> set fees. known_fee_tag (fd_type fee) \<Longrightarrow>
   fold (\<lambda>fee. bucket_push (fd_type fee) (make_line_item t src fee)) fees b =
     \<lparr>tax = tax b @ line_items t src ''tax'' fees,
      stripe_fee = stripe_fee b @ line_items t src ''stripe_fee'' fees,
      application_fee = application_fee b @ line_items t src ''application_fee'' fees\<rparr>"
proof (induction fees arbitrary: b)
  case Nil
  then show ?case by (simp add: line_items_def)
next
  case (Cons f fs)
  then show ?case by (auto simp add: line_items_def bucket_push_def known_fee_tag_def)
qed

lemma tax_sum_known:
  "\<forall>fee \<in> set fees. known_fee_tag (fd_type fee) \<Longrightarrow>
   sum_list (map fd_amount
     (filter (\<lambda>fee. fd_type fee \<noteq> ''stripe_fee'' \<and> fd_type fee \<noteq> ''application_fee'') fees))
     = fee_sum ''tax'' fees"
  by (induction fees) (auto simp add: fee_sum_def known_fee_tag_def)

text \<open>With known tags only, the three sums split the fee details without loss or overlap.\<close>

lemma fee_sums_total:
  "\<forall>fee \<in> set fees. known_fee_tag (fd_type fee) \<Longrightarrow>
   fee_sum ''stripe_fee'' fees + fee_sum ''application_fee'' fees + fee_sum ''tax'' fees
     = sum_list (map fd_amount fees)"
  by (induction fees) (auto simp add: fee_sum_def known_fee_tag_def)

text \<open>
  An available charge with a source, all of whose fee details carry one of the three tags
  \<open>taxesAndFees\<close> has an array for, is classified in full.
\<close>

lemma charge_step:
  assumes "tx_status t = ''available''" and "tx_type t = ''charge''"
    and "tx_source t = Some src"
    and "\<forall>fee \<in> set (tx_fee_details t). known_fee_tag (fd_type fee)"
  shows "process_transaction t st =
     Inr (st\<lparr>totals := (totals st)
               \<lparr>charge_stripe_fees :=
                  charge_stripe_fees (totals st) + fee_sum ''stripe_fee'' (tx_fee_details t),
                charge_application_fees :=
                  charge_application_fees (totals st)
                    + fee_sum ''application_fee'' (tx_fee_details t),
                charge_tax_fees :=
                  charge_tax_fees (totals st) + fee_sum ''tax'' (tx_fee_details t),
                charge_fees := charge_fees (totals st) + tx_fee t,
                charge_gross := charge_gross (totals st) + tx_amount t,
                charge_net := charge_net (totals st) + tx_net t\<rparr>,
             taxesAndFees :=
               \<lparr>tax = tax (taxesAndFees st) @ line_items t src ''tax'' (tx_fee_details t),
                stripe_fee =
                  stripe_fee (taxesAndFees st) @ line_items t src ''stripe_fee'' (tx_fee_details t),
                application_fee =
                  application_fee (taxesAndFees st)
                    @ line_items t src ''application_fee'' (tx_fee_details t)\<rparr>,
             charges := charges st @ [make_charge t src],
             transactions := transactions st @ [t]\<rparr>)"
  using assms
  by (simp add: process_transaction_def knownTransactionTypes_def on_stripe_fee_def
      on_payout_def on_charge_def Let_def forEach_known fold_add_fee_total fold_bucket_push
      tax_sum_known)

text \<open>
  The worked scenario of one available charge of 1000 with a single Stripe fee of 30:
  gross 1000, net 970, fees 30, Stripe fees 30, one charge record, and nothing in the tax
  and application-fee buckets.
\<close>

lemma charge_scenario:
  "\<exists>st. classification_pass fresh_state [ex_charge_tx] = Inr st \<and>
     charge_gross (totals st) = 1000 \<and> charge_net (totals st) = 970 \<and>
     charge_fees (totals st) = 30 \<and> charge_stripe_fees (totals st) = 30 \<and>
     map c_amount (charges st) = [1000] \<and>
     tax (taxesAndFees st) = [] \<and> application_fee (taxesAndFees st) = []"
proof -
  have "process_transaction ex_charge_tx fresh_state =
      Inr (fresh_state\<lparr>totals := (totals fresh_state)
               \<lparr>charge_stripe_fees :=
                  charge_stripe_fees (totals fresh_state)
                    + fee_sum ''stripe_fee'' (tx_fee_details ex_charge_tx),
                charge_application_fees :=
                  charge_application_fees (totals fresh_state)
                    + fee_sum ''application_fee'' (tx_fee_details ex_charge_tx),
                charge_tax_fees :=
                  charge_tax_fees (totals fresh_state)
                    + fee_sum ''tax'' (tx_fee_details ex_charge_tx),
                charge_fees := charge_fees (totals fresh_state) + tx_fee ex_charge_tx,
                charge_gross := charge_gross (totals fresh_state) + tx_amount ex_charge_tx,
                charge_net := charge_net (totals fresh_state) + tx_net ex_charge_tx\<rparr>,
             taxesAndFees :=
               \<lparr>tax = tax (taxesAndFees fresh_state)
                   @ line_items ex_charge_tx ex_charge_source ''tax'' (tx_fee_details ex_charge_tx),
                stripe_fee = stripe_fee (taxesAndFees fresh_state)
                   @ line_items ex_charge_tx ex_charge_source ''stripe_fee''
                       (tx_fee_details ex_charge_tx),
                application_fee = application_fee (taxesAndFees fresh_state)
                   @ line_items ex_charge_tx ex_charge_source ''application_fee''
                       (tx_fee_details ex_charge_tx)\<rparr>,
             charges := charges fresh_state @ [make_charge ex_charge_tx ex_charge_source],
             transactions := transactions fresh_state @ [ex_charge_tx]\<rparr>)"
    by (rule charge_step) (simp_all add: ex_defs known_fee_tag_def)
  then show ?thesis
    by (simp add: classification_pass_def ex_defs fee_sum_def line_items_def make_charge_def)
qed

subsection \<open>A fee detail with any other tag ends the run\<close>

lemma unknown_tag_charge_aborts_step:
  assumes "tx_status t = ''available''" and "tx_type t = ''charge''"
    and "fee \<in> set (tx_fee_details t)" and "\<not> known_fee_tag (fd_type fee)"
  shows "isl (process_transaction t st)"
proof -
  have "isl (fee_details_forEach t (tx_fee_details t) st)"
    using assms(3,4) by (rule forEach_unknown)
  then obtain e where "fee_details_forEach t (tx_fee_details t) st = Inl e"
    by (cases "fee_details_forEach t (tx_fee_details t) st") simp_all
  with assms(1,2) show ?thesis
    by (simp add: process_transaction_def knownTransactionTypes_def on_stripe_fee_def
        on_payout_def on_charge_def)
qed

lemma unknown_tag_charge_aborts_loop:
  assumes "t \<in> set txs" and "tx_status t = ''available''" and "tx_type t = ''charge''"
    and "fee \<in> set (tx_fee_details t)" and "\<not> known_fee_tag (fd_type fee)"
  shows "isl (process_all txs st)"
  using assms(1)
proof (induction txs arbitrary: st)
  case Nil
  then show ?case by simp
next
  case (Cons u us)
  show ?case
  proof (cases "process_transaction u st")
    case (Inl e)
    then show ?thesis by simp
  next
    case (Inr st')
    with unknown_tag_charge_aborts_step [OF assms(2-5), of st] have "u \<noteq> t" by auto
    with Cons.prems have "t \<in> set us" by simp
    with Cons.IH Inr show ?thesis by simp
  qed
qed

lemma unknown_tag_charge_aborts_pass:
  assumes "t \<in> set txs" and "tx_status t = ''available''" and "tx_type t = ''charge''"
    and "fee \<in> set (tx_fee_details t)" and "\<not> known_fee_tag (fd_type fee)"
  shows "isl (classification_pass prev txs)"
  unfolding classification_pass_def using assms by (rule unknown_tag_charge_aborts_loop)

lemma pass_over_passthrough_charge:
  "classification_pass prev [ex_passthrough_charge] =
     Inl (TypeError ''Cannot read properties of undefined (reading 'push')'')"
  by (simp add: classification_pass_def process_transaction_def knownTransactionTypes_def
      on_stripe_fee_def on_payout_def on_charge_def fee_callback_def bucket_def bucket_push_def
      add_fee_total_def Let_def ex_defs)

text \<open>
  Claim C1 says that a fee detail of a charge whose tag is neither \<open>stripe_fee\<close> nor
  \<open>application_fee\<close> is added to the charge-tax-fees total and appended to the tax
  bucket, and that the run goes on. The code does so for the tag \<open>tax\<close> only. For any
  other tag the total is raised, but \<open>taxesAndFees[fee.type]\<close> is not an array, the push
  raises a \<open>TypeError\<close>, and the run ends: on the sample charge with a
  \<open>payment_method_passthrough_fee\<close> detail the pass returns the error and no report.
\<close>

theorem passthrough_fee_aborts_pass:
  "classification_pass fresh_state [ex_passthrough_charge] =
     Inl (TypeError ''Cannot read properties of undefined (reading 'push')'')"
  by (rule pass_over_passthrough_charge)

text \<open>
  Claim C4 says that every available charge raises charge-gross, charge-net and
  charge-fees by its amount, net and fee, and that each of its fee details is routed into
  exactly one of the three buckets. The step on the sample charge with a
  \<open>payment_method_passthrough_fee\<close> detail returns a \<open>TypeError\<close> from any state: no
  total of the charge is reported and the detail reaches no bucket.
\<close>

theorem passthrough_charge_step_fails:
  "process_transaction ex_passthrough_charge st =
     Inl (TypeError ''Cannot read properties of undefined (reading 'push')'')"
  by (simp add: process_transaction_def knownTransactionTypes_def
      on_stripe_fee_def on_payout_def on_charge_def fee_callback_def bucket_def bucket_push_def
      add_fee_total_def Let_def ex_defs)

subsection \<open>Payouts, Stripe fees and skipped transactions\<close>

text \<open>
  Claim C5: an available payout with amount \<open>A\<close>, net \<open>N\<close> and fee \<open>F\<close> raises
  payout-gross by \<open>- A\<close>, payout-net by \<open>- N\<close> and payout-fees by \<open>F\<close>, and exactly one
  payout record is appended, whose arrival date is the date of the nested source object's
  \<open>available_on\<close> (not of the transaction's own) and whose amount is \<open>A\<close>, not negated.
\<close>

theorem payout_classified:
  assumes "tx_status t = ''available''" and "tx_type t = ''payout''"
    and "tx_source t = Some src"
  shows "\<exists>st'. process_transaction t st = Inr st' \<and>
     payouts_gross (totals st') = payouts_gross (totals st) + - tx_amount t \<and>
     payouts_net (totals st') = payouts_net (totals st) + - tx_net t \<and>
     payouts_fees (totals st') = payouts_fees (totals st) + tx_fee t \<and>
     payouts st' = payouts st @ [make_payout t src] \<and>
     p_arrival_date (make_payout t src) = src_available_on src * 1000 \<and>
     p_amount (make_payout t src) = tx_amount t"
  using payout_step [OF assms, of st] by (simp add: make_payout_def)

theorem payout_classified_witness:
  "tx_status ex_payout_tx = ''available'' \<and> tx_type ex_payout_tx = ''payout'' \<and>
   tx_source ex_payout_tx = Some ex_payout_source \<and>
   (\<exists>st'. process_transaction ex_payout_tx fresh_state = Inr st' \<and>
      payouts_gross (totals st') = 5000 \<and> payouts_net (totals st') = 4950 \<and>
      payouts_fees (totals st') = 50 \<and>
      map p_amount (payouts st') = [- 5000] \<and>
      map p_arrival_date (payouts st') = [1696377600000] \<and>
      map p_available_on (payouts st') = [1696204800000])"
proof -
  have a: "tx_status ex_payout_tx = ''available''" and b: "tx_type ex_payout_tx = ''payout''"
    and c: "tx_source ex_payout_tx = Some ex_payout_source"
    by (simp_all add: ex_payout_tx_def)
  from payout_classified [OF a b c, of fresh_state] obtain st' where
    r: "process_transaction ex_payout_tx fresh_state = Inr st'" and
    g: "payouts_gross (totals st') = payouts_gross (totals fresh_state) + - tx_amount ex_payout_tx" and
    n: "payouts_net (totals st') = payouts_net (totals fresh_state) + - tx_net ex_payout_tx" and
    f: "payouts_fees (totals st') = payouts_fees (totals fresh_state) + tx_fee ex_payout_tx" and
    p: "payouts st' = payouts fresh_state @ [make_payout ex_payout_tx ex_payout_source]"
    by (elim exE conjE)
  have "payouts_gross (totals st') = 5000" "payouts_net (totals st') = 4950"
    "payouts_fees (totals st') = 50" "map p_amount (payouts st') = [- 5000]"
    "map p_arrival_date (payouts st') = [1696377600000]"
    "map p_available_on (payouts st') = [1696204800000]"
    unfolding g n f p by (simp_all add: ex_defs make_payout_def)
  with a b c r show ?thesis by (intro conjI exI [of _ st'])
qed

text \<open>
  Claim C6: an available transaction of type \<open>stripe_fee\<close> with amount \<open>A\<close> raises the
  Stripe-fees total by exactly \<open>- A\<close>, and no collection of classified records (payouts,
  charges, the three fee buckets) gains a record for it. The raw transaction itself is
  appended to the list of processed transactions.
\<close>

theorem stripe_fee_classified:
  assumes "tx_status t = ''available''" and "tx_type t = ''stripe_fee''"
  shows "\<exists>st'. process_transaction t st = Inr st' \<and>
     stripe_fees (totals st') = stripe_fees (totals st) + - tx_amount t \<and>
     payouts st' = payouts st \<and> charges st' = charges st \<and>
     taxesAndFees st' = taxesAndFees st \<and>
     transactions st' = transactions st @ [t]"
  using stripe_fee_step [OF assms, of st] by simp

theorem stripe_fee_classified_witness:
  "tx_status ex_stripe_fee_tx = ''available'' \<and> tx_type ex_stripe_fee_tx = ''stripe_fee'' \<and>
   (\<exists>st'. process_transaction ex_stripe_fee_tx fresh_state = Inr st' \<and>
      stripe_fees (totals st') = 250 \<and> payouts st' = [] \<and> charges st' = [] \<and>
      taxesAndFees st' = no_fees)"
proof -
  have a: "tx_status ex_stripe_fee_tx = ''available''"
    and b: "tx_type ex_stripe_fee_tx = ''stripe_fee''"
    by (simp_all add: ex_stripe_fee_tx_def)
  from stripe_fee_classified [OF a b, of fresh_state] obtain st' where
    r: "process_transaction ex_stripe_fee_tx fresh_state = Inr st'" and
    s: "stripe_fees (totals st') = stripe_fees (totals fresh_state) + - tx_amount ex_stripe_fee_tx" and
    p: "payouts st' = payouts fresh_state" and c: "charges st' = charges fresh_state" and
    f: "taxesAndFees st' = taxesAndFees fresh_state"
    by (elim exE conjE)
  have "stripe_fees (totals st') = 250" "payouts st' = []" "charges st' = []"
    "taxesAndFees st' = no_fees"
    unfolding s p c f by (simp_all add: ex_defs)
  with a b r show ?thesis by (intro conjI exI [of _ st'])
qed

text \<open>
  Claim C7: a transaction whose status is neither \<open>pending\<close> nor \<open>available\<close>, and an
  available transaction whose type is none of \<open>charge\<close>, \<open>payout\<close>, \<open>stripe_fee\<close>, changes
  no total (the pending counter included), appears neither in the list of processed
  transactions nor in any classified collection, and the loop goes on with the next
  transaction.
\<close>

theorem unrecognized_skipped:
  assumes "(tx_status t \<noteq> ''pending'' \<and> tx_status t \<noteq> ''available'') \<or>
           (tx_status t = ''available'' \<and> tx_type t \<notin> {''charge'', ''payout'', ''stripe_fee''})"
  shows "\<exists>st'. process_transaction t st = Inr st' \<and>
     totals st' = totals st \<and> transactions st' = transactions st \<and>
     payouts st' = payouts st \<and> charges st' = charges st \<and>
     taxesAndFees st' = taxesAndFees st \<and>
     process_all (t # ts) st = process_all ts st'"
  using assms
proof
  assume "tx_status t \<noteq> ''pending'' \<and> tx_status t \<noteq> ''available''"
  then have "process_transaction t st = Inr (st\<lparr>console := console st @ [ConsoleError t]\<rparr>)"
    by (simp add: skip_status_step)
  then show ?thesis by simp
next
  assume "tx_status t = ''available'' \<and> tx_type t \<notin> {''charge'', ''payout'', ''stripe_fee''}"
  then have "process_transaction t st =
      Inr (st\<lparr>console := console st @ [SpinnerWarn (tx_type t) (tx_id t)]\<rparr>)"
    by (simp add: skip_type_step)
  then show ?thesis by simp
qed

theorem unrecognized_skipped_witness:
  "tx_status ex_odd_status_tx \<noteq> ''pending'' \<and> tx_status ex_odd_status_tx \<noteq> ''available'' \<and>
   tx_status ex_refund_tx = ''available'' \<and>
   tx_type ex_refund_tx \<notin> {''charge'', ''payout'', ''stripe_fee''} \<and>
   (\<exists>st'. process_transaction ex_odd_status_tx fresh_state = Inr st' \<and>
      totals st' = zero_totals \<and> transactions st' = [] \<and>
      process_all [ex_odd_status_tx, ex_payout_tx] fresh_state = process_all [ex_payout_tx] st') \<and>
   (\<exists>st'. process_transaction ex_refund_tx fresh_state = Inr st' \<and>
      totals st' = zero_totals \<and> transactions st' = [] \<and>
      process_all [ex_refund_tx, ex_payout_tx] fresh_state = process_all [ex_payout_tx] st')"
proof -
  have a: "tx_status ex_odd_status_tx \<noteq> ''pending''" "tx_status ex_odd_status_tx \<noteq> ''available''"
    by (simp_all add: ex_odd_status_tx_def)
  have b: "tx_status ex_refund_tx = ''available''"
    "tx_type ex_refund_tx \<notin> {''charge'', ''payout'', ''stripe_fee''}"
    by (simp_all add: ex_refund_tx_def)
  have c: "totals fresh_state = zero_totals" "transactions fresh_state = []"
    by (simp_all add: fresh_state_def)
  have "(tx_status ex_odd_status_tx \<noteq> ''pending'' \<and> tx_status ex_odd_status_tx \<noteq> ''available'') \<or>
      (tx_status ex_odd_status_tx = ''available'' \<and>
       tx_type ex_odd_status_tx \<notin> {''charge'', ''payout'', ''stripe_fee''})"
    using a by (intro disjI1 conjI)
  from unrecognized_skipped [OF this, of fresh_state "[ex_payout_tx]"] obtain s1 where
    "process_transaction ex_odd_status_tx fresh_state = Inr s1"
    "totals s1 = totals fresh_state" "transactions s1 = transactions fresh_state"
    "process_all [ex_odd_status_tx, ex_payout_tx] fresh_state = process_all [ex_payout_tx] s1"
    by (elim exE conjE)
  then have d: "\<exists>st'. process_transaction ex_odd_status_tx fresh_state = Inr st' \<and>
      totals st' = zero_totals \<and> transactions st' = [] \<and>
      process_all [ex_odd_status_tx, ex_payout_tx] fresh_state = process_all [ex_payout_tx] st'"
    unfolding c by (intro exI [of _ s1] conjI)
  have "(tx_status ex_refund_tx \<noteq> ''pending'' \<and> tx_status ex_refund_tx \<noteq> ''available'') \<or>
      (tx_status ex_refund_tx = ''available'' \<and>
       tx_type ex_refund_tx \<notin> {''charge'', ''payout'', ''stripe_fee''})"
    using b by (intro disjI2 conjI)
  from unrecognized_skipped [OF this, of fresh_state "[ex_payout_tx]"] obtain s2 where
    "process_transaction ex_refund_tx fresh_state = Inr s2"
    "totals s2 = totals fresh_state" "transactions s2 = transactions fresh_state"
    "process_all [ex_refund_tx, ex_payout_tx] fresh_state = process_all [ex_payout_tx] s2"
    by (elim exE conjE)
  then have e: "\<exists>st'. process_transaction ex_refund_tx fresh_state = Inr st' \<and>
      totals st' = zero_totals \<and> transactions st' = [] \<and>
      process_all [ex_refund_tx, ex_payout_tx] fresh_state = process_all [ex_payout_tx] st'"
    unfolding c by (intro exI [of _ s2] conjI)
  from a b d e show ?thesis by (intro conjI)
qed

subsection \<open>The list of processed transactions\<close>

lemma fee_callback_frame:
  "fee_callback t fee st = Inr st' \<Longrightarrow>
   transactions st' = transactions st \<and> console st' = console st \<and>
   payouts st' = payouts st \<and> charges st' = charges st"
  by (auto simp add: fee_callback_def Let_def split: option.splits)

lemma forEach_frame:
  "fee_details_forEach t fees st = Inr st' \<Longrightarrow>
   transactions st' = transactions st \<and> console st' = console st \<and>
   payouts st' = payouts st \<and> charges st' = charges st"
proof (induction fees arbitrary: st)
  case Nil
  then show ?case by simp
next
  case (Cons f fs)
  then obtain st1 where a: "fee_callback t f st = Inr st1"
    and b: "fee_details_forEach t fs st1 = Inr st'"
    by (auto split: sum.splits)
  from fee_callback_frame [OF a] Cons.IH [OF b] show ?case by simp
qed

lemma on_charge_frame:
  "on_charge t st = Inr st' \<Longrightarrow> transactions st' = transactions st \<and> console st' = console st"
  by (auto simp add: on_charge_def Let_def split: if_splits sum.splits option.splits
      dest: forEach_frame)

lemma on_payout_frame:
  "on_payout t st = Inr st' \<Longrightarrow> transactions st' = transactions st \<and> console st' = console st"
  by (auto simp add: on_payout_def Let_def split: if_splits option.splits)

lemma process_transaction_audit:
  assumes "process_transaction t st = Inr st'"
  shows "transactions st' = transactions st @ (if audited t then [t] else [])"
proof (cases "audited t")
  case False
  with assms show ?thesis
    by (auto simp add: process_transaction_def audited_def split: if_splits)
next
  case True
  with assms obtain st2 st3 where
    a: "on_payout t (on_stripe_fee t st) = Inr st2" and
    b: "on_charge t st2 = Inr st3" and
    c: "st' = st3\<lparr>transactions := transactions st3 @ [t]\<rparr>"
    by (auto simp add: process_transaction_def audited_def split: if_splits sum.splits)
  have "transactions (on_stripe_fee t st) = transactions st"
    by (simp add: on_stripe_fee_def)
  with on_payout_frame [OF a] on_charge_frame [OF b] c True show ?thesis by simp
qed

lemma process_all_audit:
  "process_all txs st = Inr st' \<Longrightarrow> transactions st' = transactions st @ filter audited txs"
proof (induction txs arbitrary: st)
  case Nil
  then show ?case by simp
next
  case (Cons t ts)
  then obtain st1 where a: "process_transaction t st = Inr st1"
    and b: "process_all ts st1 = Inr st'"
    by (auto split: sum.splits)
  from process_transaction_audit [OF a] Cons.IH [OF b] show ?case by simp
qed

text \<open>
  Claim C3 says that the list of processed transactions holds exactly the transactions of
  type charge or payout that were not skipped, and no transaction of type \<open>stripe_fee\<close>.
  It fails on one available \<open>stripe_fee\<close> transaction: \<open>transactions.push\<close> stands after
  the three type branches and runs for every known type.
\<close>

theorem audit_list_holds_stripe_fee:
  "tx_type ex_stripe_fee_tx = ''stripe_fee'' \<and>
   classification_pass fresh_state [ex_stripe_fee_tx] =
     Inr (fresh_state\<lparr>totals := zero_totals\<lparr>stripe_fees := 250\<rparr>,
                      transactions := [ex_stripe_fee_tx]\<rparr>)"
  by (simp add: classification_pass_def process_transaction_def knownTransactionTypes_def
      on_stripe_fee_def on_payout_def on_charge_def ex_defs)

text \<open>
  Claim C3, amended: when the pass completes, the list of processed transactions holds
  exactly the available transactions of type charge, payout or \<open>stripe_fee\<close>, in input
  order.
\<close>

theorem audit_list_known_types:
  "classification_pass prev txs = Inr st \<Longrightarrow> transactions st = filter audited txs"
  by (auto simp add: classification_pass_def dest: process_all_audit)

theorem audit_list_known_types_witness:
  "\<exists>st. classification_pass fresh_state
          [ex_pending_tx, ex_charge_tx, ex_refund_tx, ex_stripe_fee_tx, ex_odd_status_tx,
           ex_payout_tx] = Inr st \<and>
        transactions st = [ex_charge_tx, ex_stripe_fee_tx, ex_payout_tx]"
proof -
  let ?txs = "[ex_pending_tx, ex_charge_tx, ex_refund_tx, ex_stripe_fee_tx, ex_odd_status_tx,
     ex_payout_tx]"
  have "\<exists>st. classification_pass fresh_state ?txs = Inr st"
    by (simp add: classification_pass_def process_transaction_def knownTransactionTypes_def
        on_stripe_fee_def on_payout_def on_charge_def fee_callback_def bucket_def
        bucket_push_def add_fee_total_def Let_def ex_defs)
  then obtain st where a: "classification_pass fresh_state ?txs = Inr st" ..
  have "filter audited ?txs = [ex_charge_tx, ex_stripe_fee_tx, ex_payout_tx]"
    by (simp add: audited_def knownTransactionTypes_def ex_pending_tx_def ex_charge_tx_def
        ex_refund_tx_def ex_stripe_fee_tx_def ex_odd_status_tx_def ex_payout_tx_def)
  with audit_list_known_types [OF a] a show ?thesis by (intro exI [of _ st] conjI) simp_all
qed

subsection \<open>A run does not depend on the run before it\<close>

lemma fee_callback_console:
  "fee_callback t fee (st\<lparr>console := c\<rparr>) =
     map_sum id (\<lambda>s. s\<lparr>console := c\<rparr>) (fee_callback t fee st)"
  by (simp add: fee_callback_def Let_def split: option.splits)

lemma forEach_console:
  "fee_details_forEach t fees (st\<lparr>console := c\<rparr>) =
     map_sum id (\<lambda>s. s\<lparr>console := c\<rparr>) (fee_details_forEach t fees st)"
proof (induction fees arbitrary: st)
  case Nil
  then show ?case by simp
next
  case (Cons f fs)
  then show ?case by (cases "fee_callback t f st") (simp_all add: fee_callback_console)
qed

lemma on_charge_console:
  "on_charge t (st\<lparr>console := c\<rparr>) = map_sum id (\<lambda>s. s\<lparr>console := c\<rparr>) (on_charge t st)"
  by (simp add: on_charge_def Let_def forEach_console split: sum.splits option.splits)

lemma on_payout_console:
  "on_payout t (st\<lparr>console := c\<rparr>) = map_sum id (\<lambda>s. s\<lparr>console := c\<rparr>) (on_payout t st)"
  by (simp add: on_payout_def Let_def split: option.splits)

lemma on_stripe_fee_console:
  "on_stripe_fee t (st\<lparr>console := c\<rparr>) = (on_stripe_fee t st)\<lparr>console := c\<rparr>"
  by (simp add: on_stripe_fee_def)

lemma process_transaction_console:
  "map_sum id forget_console (process_transaction t (st\<lparr>console := c\<rparr>)) =
   map_sum id forget_console (process_transaction t st)"
  by (simp add: process_transaction_def forget_console_def on_stripe_fee_console
      on_payout_console on_charge_console split: sum.splits)

lemma forget_console_eq:
  "forget_console s1 = forget_console s2 \<Longrightarrow> s1 = s2\<lparr>console := console s1\<rparr>"
  by (cases s1, cases s2) (simp add: forget_console_def)

lemma process_all_console:
  "map_sum id forget_console (process_all txs (st\<lparr>console := c\<rparr>)) =
   map_sum id forget_console (process_all txs st)"
proof (induction txs arbitrary: st c)
  case Nil
  then show ?case by (simp add: forget_console_def)
next
  case (Cons t ts)
  show ?case
  proof (cases "process_transaction t st")
    case (Inl e)
    with process_transaction_console [where t = t and st = st and c = c]
    have "process_transaction t (st\<lparr>console := c\<rparr>) = Inl e"
      by (cases "process_transaction t (st\<lparr>console := c\<rparr>)") simp_all
    with Inl show ?thesis by simp
  next
    case (Inr s1)
    with process_transaction_console [where t = t and st = st and c = c]
    obtain s2 where a: "process_transaction t (st\<lparr>console := c\<rparr>) = Inr s2"
      and b: "forget_console s2 = forget_console s1"
      by (cases "process_transaction t (st\<lparr>console := c\<rparr>)") simp_all
    from forget_console_eq [OF b] have "s2 = s1\<lparr>console := console s2\<rparr>" .
    with Cons.IH [where st = s1 and c = "console s2"] a Inr show ?thesis by simp
  qed
qed

lemma report_forget: "report (forget_console s) = report s"
  by (simp add: report_def forget_console_def)

lemma outcome_forget: "outcome (map_sum id forget_console r) = outcome r"
  by (cases r) (simp_all add: outcome_def report_forget)

lemma classification_pass_console:
  "classification_pass prev txs = process_all txs (fresh_state\<lparr>console := console prev\<rparr>)"
  by (cases prev) (simp add: classification_pass_def fresh_state_def)

lemma outcome_from_fresh:
  "outcome (classification_pass prev txs) = outcome (process_all txs fresh_state)"
  using process_all_console [where txs = txs and st = fresh_state and c = "console prev"]
  by (metis classification_pass_console outcome_forget)

text \<open>
  Claim C10: running the classification pass twice over the same input sequence gives the
  same totals and the same classified collections (and, when the run fails, the same
  error). Whatever state an earlier run left behind, \<open>prev1\<close> or \<open>prev2\<close>, the outcome of
  the pass over \<open>txs\<close> is the same; in particular for a second run that starts in the state
  the first run ended in.
\<close>

theorem pass_independent_of_previous_run:
  "outcome (classification_pass prev1 txs) = outcome (classification_pass prev2 txs)"
  by (simp add: outcome_from_fresh)

lemma second_run_same_outcome:
  "classification_pass prev txs = Inr st \<Longrightarrow>
   outcome (classification_pass st txs) = outcome (Inr st)"
  by (metis outcome_from_fresh)

section \<open>Properties of the listing request\<close>

lemma bound_in_seconds:
  "((of_int a :: rat) \<le> of_int c * 1000) = (a \<le> c * 1000)"
  "((of_int c :: rat) * 1000 \<le> of_int b) = (c * 1000 \<le> b)"
proof -
  have m: "(of_int c :: rat) * 1000 = of_int (c * 1000)"
    by simp
  show "((of_int a :: rat) \<le> of_int c * 1000) = (a \<le> c * 1000)"
    unfolding m by (rule of_int_le_iff)
  show "((of_int c :: rat) * 1000 \<le> of_int b) = (c * 1000 \<le> b)"
    unfolding m by (rule of_int_le_iff)
qed

text \<open>
  Claim C2 says that the request covers the half-open interval from start to end: a
  transaction created at the instant \<open>end\<close> is excluded. For October 2023 in UTC (start
  1696118400000, end 1698796800000, in epoch milliseconds) a transaction created at second
  1698796800, the instant \<open>end\<close> itself, is inside the requested range.
\<close>

theorem created_at_end_is_requested:
  "1698796800 * 1000 = period_end \<lparr>period_start = 1696118400000, period_end = 1698796800000\<rparr> \<and>
   in_created_range
     (created (balanceTransactions_list_params
        \<lparr>period_start = 1696118400000, period_end = 1698796800000\<rparr>))
     1698796800"
  by (simp add: balanceTransactions_list_params_def in_created_range_def)

text \<open>
  Claim C2, amended: the request covers the closed interval from start to end in created
  time. A transaction is inside the requested range exactly when its created instant
  (\<open>created\<close> seconds, as milliseconds) is at or after \<open>start\<close> and at or before \<open>end\<close>; one
  created at the instant \<open>end\<close> is included. The expansion of the nested source is
  requested.
\<close>

theorem request_covers_closed_interval:
  "in_created_range (created (balanceTransactions_list_params p)) c
     = (period_start p \<le> c * 1000 \<and> c * 1000 \<le> period_end p) \<and>
   listed (balanceTransactions_list_params p) ledger
     = filter (\<lambda>t. period_start p \<le> tx_created t * 1000 \<and> tx_created t * 1000 \<le> period_end p)
         ledger \<and>
   expand (balanceTransactions_list_params p) = [''data.source'']"
  by (simp add: balanceTransactions_list_params_def in_created_range_def listed_def
      bound_in_seconds)

section \<open>Properties of the credential resolver\<close>

text \<open>What one round of the \<open>forEach\<close> does with a variable, given its value.\<close>

lemma env_callback_entry:
  assumes "distinct (map fst env)" and "(k, v) \<in> set env"
  shows "env_callback env k clients =
           (if is_token (k, v) then set_property (account_of k) (Stripe v) clients else clients)"
proof -
  from assms have "map_of env k = Some v" by simp
  then show ?thesis by (simp add: env_callback_def is_token_def account_of_def Let_def)
qed

lemma fold_env_callback:
  assumes "distinct (map fst env)" and "set kvs \<subseteq> set env"
  shows "fold (env_callback env) (map fst kvs) clients =
           fold (\<lambda>kv c. if is_token kv then set_property (account_of (fst kv)) (Stripe (snd kv)) c
                         else c) kvs clients"
  using assms(2)
proof (induction kvs arbitrary: clients)
  case Nil
  then show ?case by simp
next
  case (Cons kv kvs)
  obtain k v where kv: "kv = (k, v)" by (cases kv)
  with Cons.prems have "(k, v) \<in> set env" by simp
  from env_callback_entry [OF assms(1) this] kv Cons show ?case by simp
qed

lemma map_of_set_property:
  "map_of (set_property k v obj) a =
     (if k = ''__proto__'' then map_of obj a else ((map_of obj)(k \<mapsto> v)) a)"
  by (simp add: set_property_def update_conv')

lemma token_entries_Cons:
  "token_entries (kv # kvs) =
     (if is_token kv then [(account_of (fst kv), snd kv)] else []) @ token_entries kvs"
  by (simp add: token_entries_def)

text \<open>
  The own properties after the loop: under a key other than \<open>__proto__\<close>, the client of
  the last variable with that account name; under \<open>__proto__\<close>, what was there before.
\<close>

lemma map_of_fold_entries:
  "map_of (fold (\<lambda>kv c. if is_token kv then set_property (account_of (fst kv)) (Stripe (snd kv)) c
                         else c) kvs clients) a =
     (if a = ''__proto__'' then map_of clients a
      else (case map_of (rev (token_entries kvs)) a of
              Some v \<Rightarrow> Some (Stripe v)
            | None \<Rightarrow> map_of clients a))"
proof (induction kvs arbitrary: clients)
  case Nil
  then show ?case by (simp add: token_entries_def)
next
  case (Cons kv kvs)
  show ?case
    by (simp add: Cons.IH token_entries_Cons map_of_set_property map_add_def
        split: option.splits)
qed

lemma getStripeClients_lookup:
  assumes "distinct (map fst env)"
  shows "map_of (fst (getStripeClients env)) a =
     (if a = ''__proto__'' then None
      else map_option Stripe (map_of (rev (token_entries env)) a))"
proof -
  have "fst (getStripeClients env) =
      fold (\<lambda>kv c. if is_token kv then set_property (account_of (fst kv)) (Stripe (snd kv)) c
                    else c) env []"
    using fold_env_callback [OF assms, of env "[]"] by (simp add: getStripeClients_def Let_def)
  then show ?thesis
    by (simp add: map_of_fold_entries split: option.splits)
qed

lemma token_entries_mem:
  "(a, v) \<in> set (token_entries env) \<longleftrightarrow> (\<exists>k. (k, v) \<in> set env \<and> is_token (k, v) \<and> a = account_of k)"
  by (force simp add: token_entries_def)

lemma no_tokens_no_clients:
  assumes "filter is_token env = []"
  shows "getStripeClients env = ([], {})"
proof -
  have "env_callback env k clients = clients" for k clients
  proof (cases "map_of env k")
    case None
    then show ?thesis by (simp add: env_callback_def Let_def)
  next
    case (Some v)
    then have "(k, v) \<in> set env" by (rule map_of_SomeD)
    with assms have "\<not> is_token (k, v)" by (auto simp add: filter_empty_conv)
    with Some show ?thesis by (auto simp add: is_token_def env_callback_def Let_def)
  qed
  then have "env_callback env k = id" for k
    by (simp add: fun_eq_iff)
  then have "fold (env_callback env) (map fst env) = id" by (rule fold_id)
  then show ?thesis by (simp add: getStripeClients_def)
qed

lemma getStripeClients_ex_env:
  "getStripeClients ex_env =
     ([(''acme'', Stripe ''sk_test_1''), (''shop'', Stripe ''op://vault/shop/token'')],
      {''acme'', ''shop''})"
  by (simp add: getStripeClients_def env_callback_def ex_env_def startsWith_def
      toLowerCase_def lower_char_def set_property_def Let_def)

text \<open>
  Claim C9 says that the mapping holds, for every variable with the prefix and a non-empty
  value, an entry from the lowercased rest of the name to that value. With
  \<open>STRIPE_TOKEN_A\<close> and \<open>STRIPE_TOKEN_a\<close> both set, both names give the account \<open>a\<close>: one
  entry remains, built from the second value, and the first value has none.
\<close>

theorem colliding_names_share_an_entry:
  "fst (getStripeClients ex_env_collision) = [(''a'', Stripe ''sk_two'')] \<and>
   map_of (fst (getStripeClients ex_env_collision)) (account_of ''STRIPE_TOKEN_A'')
     \<noteq> Some (Stripe ''sk_one'')"
  by (simp add: getStripeClients_def env_callback_def ex_env_collision_def startsWith_def
      toLowerCase_def lower_char_def set_property_def account_of_def Stripe_def Let_def)

text \<open>
  Claim C9, amended: for every snapshot of the environment, the mapping holds an entry
  from the lowercased rest of the name to the client built from the value, for every
  variable with the prefix \<open>STRIPE_TOKEN_\<close> and a non-empty value whose lowercased rest
  is not \<open>__proto__\<close> and is shared by no other such variable; every entry of the mapping
  comes from a variable with the prefix and a non-empty value; the keys returned are the
  keys of the mapping; and when no variable matches, the result is the empty mapping, not
  an error.
\<close>

theorem credentials_resolved:
  assumes "distinct (map fst env)"
  shows "(\<forall>(k, v) \<in> set env.
            is_token (k, v) \<and> account_of k \<noteq> ''__proto__'' \<and>
            (\<forall>(k', v') \<in> set env. is_token (k', v') \<and> account_of k' = account_of k \<longrightarrow> k' = k)
            \<longrightarrow> map_of (fst (getStripeClients env)) (account_of k) = Some (Stripe v)) \<and>
         (\<forall>a c. map_of (fst (getStripeClients env)) a = Some c \<longrightarrow>
            (\<exists>(k, v) \<in> set env. is_token (k, v) \<and> a = account_of k \<and> c = Stripe v)) \<and>
         snd (getStripeClients env) = fst ` set (fst (getStripeClients env)) \<and>
         (filter is_token env = [] \<longrightarrow> getStripeClients env = ([], {}))"
proof (intro conjI)
  show "\<forall>(k, v) \<in> set env.
          is_token (k, v) \<and> account_of k \<noteq> ''__proto__'' \<and>
          (\<forall>(k', v') \<in> set env. is_token (k', v') \<and> account_of k' = account_of k \<longrightarrow> k' = k)
          \<longrightarrow> map_of (fst (getStripeClients env)) (account_of k) = Some (Stripe v)"
  proof (intro ballI, clarify)
    fix k v
    assume mem: "(k, v) \<in> set env" and tok: "is_token (k, v)"
      and np: "account_of k \<noteq> ''__proto__''"
      and uniq: "\<forall>(k', v') \<in> set env. is_token (k', v') \<and> account_of k' = account_of k \<longrightarrow> k' = k"
    from mem tok have "(account_of k, v) \<in> set (rev (token_entries env))"
      by (auto simp add: token_entries_mem)
    then have "\<exists>w. map_of (rev (token_entries env)) (account_of k) = Some w"
      by (rule weak_map_of_SomeI)
    then obtain w where w: "map_of (rev (token_entries env)) (account_of k) = Some w" ..
    then have "(account_of k, w) \<in> set (token_entries env)"
      by (auto dest: map_of_SomeD)
    then obtain k' where k': "(k', w) \<in> set env" "is_token (k', w)" "account_of k = account_of k'"
      by (auto simp add: token_entries_mem)
    with uniq have "k' = k" by auto
    with k' mem assms have "w = v" by (auto dest: eq_key_imp_eq_value)
    with w np show "map_of (fst (getStripeClients env)) (account_of k) = Some (Stripe v)"
      by (simp add: getStripeClients_lookup [OF assms])
  qed
  show "\<forall>a c. map_of (fst (getStripeClients env)) a = Some c \<longrightarrow>
          (\<exists>(k, v) \<in> set env. is_token (k, v) \<and> a = account_of k \<and> c = Stripe v)"
  proof (intro allI impI)
    fix a c
    assume "map_of (fst (getStripeClients env)) a = Some c"
    then obtain v where "map_of (rev (token_entries env)) a = Some v" and c: "c = Stripe v"
      by (auto simp add: getStripeClients_lookup [OF assms] split: if_splits)
    then have "(a, v) \<in> set (token_entries env)" by (auto dest: map_of_SomeD)
    with c show "\<exists>(k, v) \<in> set env. is_token (k, v) \<and> a = account_of k \<and> c = Stripe v"
      by (auto simp add: token_entries_mem)
  qed
  show "snd (getStripeClients env) = fst ` set (fst (getStripeClients env))"
    by (simp add: getStripeClients_def Let_def)
  show "filter is_token env = [] \<longrightarrow> getStripeClients env = ([], {})"
    by (simp add: no_tokens_no_clients)
qed

theorem credentials_resolved_witness:
  "distinct (map fst ex_env) \<and>
   fst (getStripeClients ex_env) =
     [(''acme'', Stripe ''sk_test_1''), (''shop'', Stripe ''op://vault/shop/token'')] \<and>
   snd (getStripeClients ex_env) = {''acme'', ''shop''} \<and>
   map_of (fst (getStripeClients ex_env)) (account_of ''STRIPE_TOKEN_Shop'')
     = Some (Stripe ''op://vault/shop/token'') \<and>
   getStripeClients [(''PATH'', ''/usr/bin''), (''STRIPE_TOKEN_EMPTY'', [])] = ([], {})"
proof -
  have d: "distinct (map fst ex_env)"
    by (simp add: ex_env_def)
  have e: "fst (getStripeClients ex_env) =
      [(''acme'', Stripe ''sk_test_1''), (''shop'', Stripe ''op://vault/shop/token'')]"
    by (simp add: getStripeClients_ex_env)
  have m: "(''STRIPE_TOKEN_Shop'', ''op://vault/shop/token'') \<in> set ex_env"
    by (simp add: ex_env_def)
  have t: "is_token (''STRIPE_TOKEN_Shop'', ''op://vault/shop/token'') \<and>
      account_of ''STRIPE_TOKEN_Shop'' \<noteq> ''__proto__'' \<and>
      (\<forall>(k', v') \<in> set ex_env.
         is_token (k', v') \<and> account_of k' = account_of ''STRIPE_TOKEN_Shop''
         \<longrightarrow> k' = ''STRIPE_TOKEN_Shop'')"
    by (simp add: ex_env_def is_token_def account_of_def startsWith_def toLowerCase_def
        lower_char_def)
  have d2: "distinct (map fst [(''PATH'', ''/usr/bin''), (''STRIPE_TOKEN_EMPTY'', [])])"
    by simp
  have n: "filter is_token [(''PATH'', ''/usr/bin''), (''STRIPE_TOKEN_EMPTY'', [])] = []"
    by (simp add: is_token_def startsWith_def)
  from credentials_resolved [OF d] m t
  have "map_of (fst (getStripeClients ex_env)) (account_of ''STRIPE_TOKEN_Shop'')
      = Some (Stripe ''op://vault/shop/token'')"
    by fast
  moreover from credentials_resolved [OF d]
  have "snd (getStripeClients ex_env) = fst ` set (fst (getStripeClients ex_env))"
    by (elim conjE)
  then have "snd (getStripeClients ex_env) = {''acme'', ''shop''}"
    unfolding e by simp
  moreover from credentials_resolved [OF d2] n
  have "getStripeClients [(''PATH'', ''/usr/bin''), (''STRIPE_TOKEN_EMPTY'', [])] = ([], {})"
    by (elim conjE impE)
  ultimately show ?thesis using d e by (intro conjI)
qed

section \<open>Properties of the exit status\<close>

text \<open>A rejection of \<open>main\<close> ends the process with 0 for the forced-close text, else with 1.\<close>

lemma settle_rejected:
  "settle (Rejected e) =
     (if startsWith (message e) ''User force closed the prompt with'' then 0 else 1)"
  by (simp add: settle_def)

text \<open>
  When the prompt layer rejects, both tools pass the rejection on (once a credential was
  found).
\<close>

lemma report_main_prompt_rejected:
  "snd (getStripeClients env) \<noteq> {} \<Longrightarrow>
   report_main env (Inl e) fp list_upstream prev = Rejected e"
  by (cases "getStripeClients env") (simp add: report_main_def)

lemma tools_main_prompt_rejected:
  "stripeTokens \<noteq> [] \<Longrightarrow> tools_main stripeTokens (Inl e) ext = Rejected e"
  by (cases stripeTokens) (simp_all add: tools_main_def)

text \<open>
  When the prompt layer resolves with an answer missing, the extended tool exits with 0
  (its check after the prompts).
\<close>

lemma tools_main_answer_missing:
  assumes "stripeTokens \<noteq> []"
    and "r_account r = None \<or> r_period r = None \<or> r_action r = None"
  shows "settle (tools_main stripeTokens (Inr r) ext) = 0"
  using assms
  by (cases stripeTokens) (auto simp add: tools_main_def settle_def split: option.splits)

text \<open>
  The report tool has no such check. With an answer missing it goes on to format the
  period, to look the client up and to read the period's start, and is rejected with a
  \<open>TypeError\<close> at the latest there.
\<close>

lemma report_main_answer_missing:
  assumes "snd (getStripeClients env) \<noteq> {}" and "r_period r = None"
  shows "\<exists>e. report_main env (Inr r) fp list_upstream prev = Rejected e \<and>
           (e = TypeError ''Cannot read properties of undefined (reading 'balanceTransactions')''
            \<or> e = TypeError ''Cannot read properties of undefined (reading 'start')''
            \<or> fp None = Inl e)"
  using assms
  by (cases "getStripeClients env")
    (auto simp add: report_main_def split: sum.splits option.splits)

text \<open>
  Claim C8 says that interrupting any prompt ends either tool with exit status 0. The
  prompt layer of both tools resolves with the answers given so far when a prompt is
  interrupted; the extended tool tests for a missing answer and exits with 0. In the
  report tool, with credentials found and the account prompt interrupted (no answer at
  all) or the period prompt interrupted (an account, no period), the exit status is 1,
  unless \<open>formatPeriod\<close> itself raises an error that carries the forced-close text.
\<close>

theorem report_tool_interrupted_exit_status:
  "settle (report_main ex_env
      (Inr \<lparr>r_account = None, r_period = None, r_action = None\<rparr>) fp list_upstream prev)
     = (case fp None of
          Inl e \<Rightarrow> if startsWith (message e) ''User force closed the prompt with'' then 0 else 1
        | Inr _ \<Rightarrow> 1) \<and>
   settle (report_main ex_env
      (Inr \<lparr>r_account = Some ''acme'', r_period = None, r_action = None\<rparr>) fp list_upstream prev)
     = (case fp None of
          Inl e \<Rightarrow> if startsWith (message e) ''User force closed the prompt with'' then 0 else 1
        | Inr _ \<Rightarrow> 1)"
  by (simp add: report_main_def getStripeClients_ex_env get_property_def settle_def
      startsWith_def split: sum.splits)

text \<open>The same answers in the extended tool, with a token at hand: exit status 0.\<close>

lemma tools_interrupted_exit_status:
  "settle (tools_main [(''acme'', ''sk_test_1'')]
      (Inr \<lparr>r_account = None, r_period = None, r_action = None\<rparr>) ext) = 0 \<and>
   settle (tools_main [(''acme'', ''sk_test_1'')]
      (Inr \<lparr>r_account = Some ''acme'', r_period = None, r_action = None\<rparr>) ext) = 0"
  by (simp add: tools_main_answer_missing)

text \<open>
  A failure of the run itself: the pass over the sample charge with the fourth fee type
  is rejected with a \<open>TypeError\<close>, and the report tool exits with 1.
\<close>

lemma report_tool_failure_exits_1:
  assumes "fp (Some p) = Inr text"
    and "list_upstream (Stripe ''sk_test_1'') (balanceTransactions_list_params p)
           = ([ex_passthrough_charge], None)"
  shows "settle (report_main ex_env
           (Inr \<lparr>r_account = Some ''acme'', r_period = Some p, r_action = None\<rparr>)
           fp list_upstream fresh_state) = 1"
  using assms pass_over_passthrough_charge [of fresh_state]
  by (simp add: report_main_def getStripeClients_ex_env get_property_def settle_def
      startsWith_def)

end
